theory Spec2Isabelle
  imports Main "HOL-Library.Word" "HOL-Library.Sublist"
begin

section \<open>JavaScript strings\<close>

text \<open>
  A JavaScript string is a sequence of UTF-16 code units; \<open>length\<close>, \<open>slice\<close>,
  \<open>includes\<close>, \<open>startsWith\<close> and \<open>split\<close> all count and compare code units.
  The ellipsis U+2026 that \<open>makeFriendlyApiName\<close> appends is one code unit.
\<close>

type_synonym jsstring = "16 word list"

text \<open>An ASCII literal of the source, as code units.\<close>

definition ascii :: "string \<Rightarrow> jsstring" where
  "ascii s = map (\<lambda>c. of_nat (of_char c)) s"

text \<open>\<open>s.includes(c)\<close> for a one-unit search string.\<close>

definition includes_js :: "jsstring \<Rightarrow> 16 word \<Rightarrow> bool" where
  "includes_js s c = (c \<in> set s)"

text \<open>\<open>s.startsWith(p)\<close>: the first \<open>p.length\<close> units of \<open>s\<close> are \<open>p\<close>.\<close>

definition startsWith :: "jsstring \<Rightarrow> jsstring \<Rightarrow> bool" where
  "startsWith s p = (take (length p) s = p)"

text \<open>
  \<open>s.split(sep)\<close> for a one-unit separator: the pieces between the occurrences of
  \<open>sep\<close>; the empty string gives one empty piece.
\<close>

fun split :: "16 word \<Rightarrow> jsstring \<Rightarrow> jsstring list" where
  "split sep [] = [[]]"
| "split sep (c # cs) =
     (let pieces = split sep cs
      in if c = sep then [] # pieces else (c # hd pieces) # tl pieces)"

text \<open>
  The code units that \<open>trimRight\<close> strips: ECMAScript WhiteSpace (TAB, VT, FF, SP, NBSP,
  ZWNBSP and the Unicode space separators) and LineTerminator (LF, CR, LS, PS).
\<close>

definition isWhiteSpace :: "16 word \<Rightarrow> bool" where
  "isWhiteSpace c =
     (c = 0x0009 \<or> c = 0x000A \<or> c = 0x000B \<or> c = 0x000C \<or> c = 0x000D \<or> c = 0x0020 \<or>
      c = 0x00A0 \<or> c = 0x1680 \<or> (0x2000 \<le> c \<and> c \<le> 0x200A) \<or> c = 0x2028 \<or>
      c = 0x2029 \<or> c = 0x202F \<or> c = 0x205F \<or> c = 0x3000 \<or> c = 0xFEFF)"

text \<open>\<open>s.trimRight()\<close>: \<open>s\<close> without the white space at its end.\<close>

definition trimRight :: "jsstring \<Rightarrow> jsstring" where
  "trimRight s = rev (dropWhile isWhiteSpace (rev s))"

section \<open>The display name of an API\<close>

text \<open>
  \<open>makeFriendlyApiName\<close>. \<open>_.startCase\<close> belongs to the lodash library, not to this
  program: it is the parameter \<open>startCase\<close>.
\<close>

definition makeFriendlyApiName :: "(jsstring \<Rightarrow> jsstring) \<Rightarrow> jsstring \<Rightarrow> jsstring" where
  "makeFriendlyApiName startCase rawName =
     (let cleanedName =
            (if \<not> includes_js rawName 0x20 \<and> length rawName > 6
             then startCase rawName
             else rawName)
      in if length cleanedName > 75
         then trimRight (take 72 cleanedName) @ [0x2026]
         else cleanedName)"

section \<open>Card keys and the view state\<close>

datatype CardKey =
    Api | Request | RequestBody | Response | ResponseBody
  | WebSocketMessages | WebSocketClose | Performance | Export

definition cardKeys :: "CardKey list" where
  "cardKeys =
     [Api, Request, RequestBody, Response, ResponseBody,
      WebSocketMessages, WebSocketClose, Performance, Export]"

text \<open>The string each key is in the source.\<close>

fun keyName :: "CardKey \<Rightarrow> jsstring" where
  "keyName Api = ascii ''api''"
| "keyName Request = ascii ''request''"
| "keyName RequestBody = ascii ''requestBody''"
| "keyName Response = ascii ''response''"
| "keyName ResponseBody = ascii ''responseBody''"
| "keyName WebSocketMessages = ascii ''webSocketMessages''"
| "keyName WebSocketClose = ascii ''webSocketClose''"
| "keyName Performance = ascii ''performance''"
| "keyName Export = ascii ''export''"

text \<open>
  \<open>uiStore.expandedCard\<close> has the type
  \<open>'requestBody' | 'responseBody' | 'webSocketMessages' | undefined\<close>: it is what
  \<open>render\<close> passes to \<open>renderExpandedCard\<close>, whose parameter has that type.
\<close>

datatype ExpandedCard = ExpRequestBody | ExpResponseBody | ExpWebSocketMessages

fun cardKeyOf :: "ExpandedCard \<Rightarrow> CardKey" where
  "cardKeyOf ExpRequestBody = RequestBody"
| "cardKeyOf ExpResponseBody = ResponseBody"
| "cardKeyOf ExpWebSocketMessages = WebSocketMessages"

record CardState =
  collapsed :: bool

text \<open>
  The part of \<open>UiStore\<close> the pane uses. \<open>viewCardStates\<close> is an object with one entry
  per card key (\<open>cardProps\<close> reads each of them). Like every object it also answers to
  the names it inherits from its prototype chain (\<open>constructor\<close>, \<open>toString\<close>,
  \<open>__proto__\<close>, ... for a plain object): \<open>inheritedProperties\<close> lists the names other than
  its own entries at which a lookup finds an object or a function.
\<close>

record UiStore =
  viewCardStates :: "CardKey \<Rightarrow> CardState"
  inheritedProperties :: "jsstring list"
  expandedCard :: "ExpandedCard option"

text \<open>
  The mutable state behind one \<open>HttpDetailsPane\<close>: the injected store, the component's
  own \<open>expandCompleted\<close> flag, and the number of callbacks handed to
  \<open>requestAnimationFrame\<close> that have not run yet. The pane keeps no handle of them and
  never cancels one. Each of these callbacks is the same action, \<open>frameCallback\<close>;
  \<open>runFrameCallback\<close> is the browser running the oldest pending one (it runs them in the
  order they were requested), \<open>None\<close> when none is pending.
\<close>

record Pane =
  uiStore :: UiStore
  expandCompleted :: bool
  frameRequests :: nat

definition frameCallback :: "Pane \<Rightarrow> Pane" where
  "frameCallback p = p\<lparr>expandCompleted := True\<rparr>"


datatype JsError = TypeError

text \<open>
  The own entry of \<open>viewCardStates\<close> at a \<open>key\<close> of type \<open>string\<close>: the entry of the card
  key of that name, \<open>None\<close> when the name is not one of the nine.
\<close>

definition lookupCardKey :: "jsstring \<Rightarrow> CardKey option" where
  "lookupCardKey key = find (\<lambda>k. keyName k = key) cardKeys"

text \<open>
  \<open>toggleCollapse(key: string)\<close>. \<open>viewCardStates[key as CardKey]\<close> is the own entry of
  that name if there is one. Otherwise, at an inherited name it is the inherited object:
  \<open>collapsed\<close> is then written on that object, which is no part of the view state, and
  \<open>expandedCard\<close> is cleared all the same. At any other name it is \<open>undefined\<close>, and
  reading \<open>collapsed\<close> of it throws a TypeError before anything is written.
\<close>

definition toggleCollapse :: "jsstring \<Rightarrow> Pane \<Rightarrow> JsError + Pane" where
  "toggleCollapse key p =
     (case lookupCardKey key of
        Some k \<Rightarrow>
          (let cardState = viewCardStates (uiStore p) k;
               cardState' = cardState\<lparr>CardState.collapsed := \<not> CardState.collapsed cardState\<rparr>
           in Inr (p\<lparr>uiStore := (uiStore p)
                       \<lparr>viewCardStates := (viewCardStates (uiStore p))(k := cardState'),
                        expandedCard := None\<rparr>\<rparr>))
      | None \<Rightarrow>
          if key \<in> set (inheritedProperties (uiStore p))
          then Inr (p\<lparr>uiStore := (uiStore p)\<lparr>expandedCard := None\<rparr>\<rparr>)
          else Inl TypeError)"

text \<open>
  \<open>toggleExpand(key: CardKey)\<close>. Its second branch narrows \<open>key\<close> to one of the three
  expandable keys, which is what lets it be assigned to \<open>expandedCard\<close>; \<open>expand\<close> is the
  body of that branch at the narrowed key: the card is un-collapsed and becomes the
  expanded one, \<open>expandCompleted\<close> is set to false and one more callback is handed to
  \<open>requestAnimationFrame\<close>.
\<close>

definition expand :: "ExpandedCard \<Rightarrow> Pane \<Rightarrow> Pane" where
  "expand e p =
     p\<lparr>uiStore := (uiStore p)
          \<lparr>viewCardStates :=
             (viewCardStates (uiStore p))
               (cardKeyOf e := (viewCardStates (uiStore p) (cardKeyOf e))\<lparr>CardState.collapsed := False\<rparr>),
           expandedCard := Some e\<rparr>,
       expandCompleted := False,
       frameRequests := Suc (frameRequests p)\<rparr>"

definition toggleExpand :: "CardKey \<Rightarrow> Pane \<Rightarrow> Pane" where
  "toggleExpand key p =
     (if map_option cardKeyOf (expandedCard (uiStore p)) = Some key
      then p\<lparr>uiStore := (uiStore p)\<lparr>expandedCard := None\<rparr>\<rparr>
      else if key = RequestBody then expand ExpRequestBody p
      else if key = ResponseBody then expand ExpResponseBody p
      else if key = WebSocketMessages then expand ExpWebSocketMessages p
      else p)"

section \<open>The exchange\<close>

text \<open>
  What the pane reads of an \<open>HttpExchange\<close>. The class belongs to the model layer
  (\<open>types\<close>), not to the pane, so the results of its methods (\<open>hasRequestBody()\<close>,
  \<open>hasResponseBody()\<close>, \<open>isWebSocket()\<close>, \<open>wasAccepted()\<close>, \<open>isSuccessfulExchange()\<close>) are
  fields here, and an object the pane only tests for presence (\<open>requestBreakpoint\<close>,
  \<open>responseBreakpoint\<close>, \<open>closeState\<close>) is the boolean of that test.
\<close>

text \<open>\<open>exchange.response\<close>: \<open>undefined\<close>, the string \<open>'aborted'\<close>, or a response.\<close>

datatype ExchangeResponse = Undefined | Aborted | HtkResponse

record ApiExchange =
  matchedOperation :: bool
  serviceName :: jsstring

record HttpExchange =
  exchangeId :: jsstring
  requestUrl :: jsstring
  requestBreakpoint :: bool
  responseBreakpoint :: bool
  tags :: "jsstring list"
  api :: "ApiExchange option"
  response :: ExchangeResponse
  closeState :: bool
  hasRequestBody :: bool
  hasResponseBody :: bool
  isWebSocket :: bool
  wasAccepted :: bool
  isSuccessfulExchange :: bool

section \<open>Elements\<close>

text \<open>
  \<open>CardBaseProps\<close> without \<open>onCollapseToggled\<close>, which is \<open>toggleCollapse\<close> bound to
  the key.
\<close>

record CardBaseProps =
  key :: CardKey
  expanded :: bool
  collapsed :: bool

datatype Direction = DirLeft | DirRight

record BodyParams = CardBaseProps +
  title :: jsstring
  direction :: Direction

text \<open>
  The elements the pane creates, each with the props that depend on the view state.
  \<open>CollapsibleCard\<close> is the notice of an aborted response; \<open>StreamMessageListCard\<close>
  carries its React key and its \<open>filenamePrefix\<close>.
\<close>

datatype Element =
    HttpApiPlaceholderCard CardBaseProps jsstring
  | HttpApiCard CardBaseProps jsstring
  | HttpRequestCard CardBaseProps
  | HttpBreakpointRequestCard CardBaseProps
  | HttpBodyCard BodyParams
  | HttpBreakpointBodyCard BodyParams
  | CollapsibleCard CardBaseProps
  | HttpResponseCard CardBaseProps
  | HttpBreakpointResponseCard CardBaseProps
  | StreamMessageListCard CardBaseProps jsstring jsstring
  | WebSocketCloseCard CardBaseProps
  | CardDivider
  | HttpPerformanceCard CardBaseProps
  | HttpExportCard CardBaseProps

datatype 'e Header =
    HttpRequestBreakpointHeader
  | HttpResponseBreakpointHeader
  | HttpErrorHeader 'e

text \<open>
  What \<open>render\<close> returns: the expanded container with the header and one card, or the
  outer container with the header and the cards (its footer does not depend on the view
  state). A card can be \<open>null\<close>, which React does not show.
\<close>

datatype 'e View =
    ExpandedContentContainer bool "'e Header option" "Element option"
  | OuterContainer "'e Header option" "Element option list"

text \<open>The panel an element shows: a card of some key, or the divider.\<close>

datatype Panel = Card CardKey | Divider

fun panelOf :: "Element \<Rightarrow> Panel" where
  "panelOf (HttpApiPlaceholderCard c n) = Card (key c)"
| "panelOf (HttpApiCard c n) = Card (key c)"
| "panelOf (HttpRequestCard c) = Card (key c)"
| "panelOf (HttpBreakpointRequestCard c) = Card (key c)"
| "panelOf (HttpBodyCard b) = Card (key b)"
| "panelOf (HttpBreakpointBodyCard b) = Card (key b)"
| "panelOf (CollapsibleCard c) = Card (key c)"
| "panelOf (HttpResponseCard c) = Card (key c)"
| "panelOf (HttpBreakpointResponseCard c) = Card (key c)"
| "panelOf (StreamMessageListCard c k f) = Card (key c)"
| "panelOf (WebSocketCloseCard c) = Card (key c)"
| "panelOf CardDivider = Divider"
| "panelOf (HttpPerformanceCard c) = Card (key c)"
| "panelOf (HttpExportCard c) = Card (key c)"

definition shown :: "Element option list \<Rightarrow> Element list" where
  "shown cards = List.map_filter (\<lambda>c. c) cards"

definition panels :: "Element option list \<Rightarrow> Panel list" where
  "panels cards = map panelOf (shown cards)"

section \<open>Rendering\<close>

text \<open>The computed \<open>cardProps\<close>, at one key.\<close>

definition cardProps :: "UiStore \<Rightarrow> CardKey \<Rightarrow> CardBaseProps" where
  "cardProps u k =
     \<lparr>key = k,
      expanded = (Some k = map_option cardKeyOf (expandedCard u)),
      collapsed = (CardState.collapsed (viewCardStates u k) \<and> expandedCard u = None)\<rparr>"

definition requestBodyParams :: "UiStore \<Rightarrow> BodyParams" where
  "requestBodyParams u =
     \<lparr>key = key (cardProps u RequestBody),
      expanded = (expandedCard u = Some ExpRequestBody),
      collapsed = collapsed (cardProps u RequestBody),
      title = ascii ''Request Body'',
      direction = DirRight\<rparr>"

definition responseBodyParams :: "UiStore \<Rightarrow> BodyParams" where
  "responseBodyParams u =
     \<lparr>key = key (cardProps u ResponseBody),
      expanded = (expandedCard u = Some ExpResponseBody),
      collapsed = collapsed (cardProps u ResponseBody),
      title = ascii ''Response Body'',
      direction = DirLeft\<rparr>"

definition renderRequestBody :: "UiStore \<Rightarrow> HttpExchange \<Rightarrow> Element" where
  "renderRequestBody u exchange =
     (if requestBreakpoint exchange
      then HttpBreakpointBodyCard (requestBodyParams u)
      else HttpBodyCard (requestBodyParams u))"

definition renderResponseBody :: "UiStore \<Rightarrow> HttpExchange \<Rightarrow> Element" where
  "renderResponseBody u exchange =
     (if responseBreakpoint exchange
      then HttpBreakpointBodyCard (responseBodyParams u)
      else HttpBodyCard (responseBodyParams u))"

text \<open>
  \<open>renderWebSocketMessages\<close>. \<open>urlParts[2]\<close> is \<open>undefined\<close> when the URL has fewer than
  three pieces, and calling \<open>split\<close> on it throws a TypeError. \<open>split\<close> never returns an
  empty array, so \<open>[0]\<close> and \<open>urlParts[urlParts.length - 1]\<close> are always there; an empty
  \<open>baseName\<close> is falsy.
\<close>

definition renderWebSocketMessages :: "UiStore \<Rightarrow> HttpExchange \<Rightarrow> JsError + Element" where
  "renderWebSocketMessages u exchange =
     (let urlParts = split 0x2F (requestUrl exchange) in
      if length urlParts \<le> 2 then Inl TypeError
      else
        let domain = hd (split 0x3A (urlParts ! 2));
            baseName = (if length urlParts \<ge> 2
                        then Some (urlParts ! (length urlParts - 1)) else None);
            filenamePrefix =
              domain
              @ (case baseName of
                   None \<Rightarrow> []
                 | Some b \<Rightarrow> if b = [] then [] else ascii ''- '' @ b)
              @ ascii '' - websocket''
        in Inr (StreamMessageListCard (cardProps u WebSocketMessages)
                  (keyName (key (cardProps u WebSocketMessages)) @ ascii ''-''
                     @ exchangeId exchange)
                  filenamePrefix))"

text \<open>
  \<open>apiName\<close>, as \<open>render\<close> computes it, and \<open>renderApiCard\<close>; \<open>!apiName\<close> holds of
  \<open>undefined\<close> and of the empty string.
\<close>

definition apiName :: "(jsstring \<Rightarrow> jsstring) \<Rightarrow> HttpExchange \<Rightarrow> jsstring option" where
  "apiName startCase exchange =
     (case api exchange of
        None \<Rightarrow> None
      | Some a \<Rightarrow>
          if matchedOperation a
          then Some (makeFriendlyApiName startCase (serviceName a))
          else None)"

definition renderApiCard :: "UiStore \<Rightarrow> bool \<Rightarrow> jsstring option \<Rightarrow> Element option" where
  "renderApiCard u isPaidUser apiNm =
     (case apiNm of
        None \<Rightarrow> None
      | Some n \<Rightarrow>
          if n = [] then None
          else if \<not> isPaidUser then Some (HttpApiPlaceholderCard (cardProps u Api) n)
          else Some (HttpApiCard (cardProps u Api) n))"

text \<open>
  \<open>renderHeaderCard\<close>. \<open>tagsToErrorType\<close> is defined with the error header component
  (\<open>http-error-header\<close>), not in the pane: it is a parameter.
\<close>

definition renderHeaderCard ::
  "(jsstring list \<Rightarrow> 'e option) \<Rightarrow> HttpExchange \<Rightarrow> 'e Header option" where
  "renderHeaderCard tagsToErrorType exchange =
     (if requestBreakpoint exchange then Some HttpRequestBreakpointHeader
      else if responseBreakpoint exchange then Some HttpResponseBreakpointHeader
      else case tagsToErrorType (tags exchange) of
             Some errorType \<Rightarrow> Some (HttpErrorHeader errorType)
           | None \<Rightarrow> None)"

text \<open>
  \<open>renderExpandedCard\<close>: the card, and the messages passed to \<open>reportError\<close>.
\<close>

definition renderExpandedCard ::
  "UiStore \<Rightarrow> ExpandedCard \<Rightarrow> HttpExchange \<Rightarrow> JsError + (Element option \<times> jsstring list)" where
  "renderExpandedCard u expandedCd exchange =
     (if expandedCd = ExpRequestBody
      then Inr (Some (renderRequestBody u exchange), [])
      else if expandedCd = ExpResponseBody \<and>
              (isSuccessfulExchange exchange \<or> responseBreakpoint exchange)
      then Inr (Some (renderResponseBody u exchange), [])
      else if expandedCd = ExpWebSocketMessages \<and> isWebSocket exchange \<and> wasAccepted exchange
      then (case renderWebSocketMessages u exchange of
              Inl err \<Rightarrow> Inl err
            | Inr element \<Rightarrow> Inr (Some element, []))
      else Inr (None,
                [ascii ''Expanded '' @ keyName (cardKeyOf expandedCd)
                   @ ascii '', but can't show anything'']))"

definition renderBreakpointCards ::
  "UiStore \<Rightarrow> bool \<Rightarrow> jsstring option \<Rightarrow> HttpExchange \<Rightarrow> Element option list" where
  "renderBreakpointCards u isPaidUser apiNm exchange =
     (if requestBreakpoint exchange
      then [Some (HttpBreakpointRequestCard (cardProps u Request)),
            Some (renderRequestBody u exchange)]
      else [renderApiCard u isPaidUser apiNm,
            Some (HttpRequestCard (cardProps u Request))]
           @ (if hasRequestBody exchange then [Some (renderRequestBody u exchange)] else [])
           @ [Some (HttpBreakpointResponseCard (cardProps u Response)),
              Some (renderResponseBody u exchange)])"

text \<open>
  \<open>renderNormalCards\<close>: the cards pushed, in order; a throw in
  \<open>renderWebSocketMessages\<close> leaves the method before it returns any.
\<close>

definition renderNormalCards ::
  "UiStore \<Rightarrow> bool \<Rightarrow> jsstring option \<Rightarrow> HttpExchange \<Rightarrow> JsError + Element option list" where
  "renderNormalCards u isPaidUser apiNm exchange =
     (let cards =
            [renderApiCard u isPaidUser apiNm,
             Some (HttpRequestCard (cardProps u Request))]
            @ (if hasRequestBody exchange then [Some (renderRequestBody u exchange)] else [])
            @ (if response exchange = Aborted
               then [Some (CollapsibleCard (cardProps u Response))]
               else if response exchange \<noteq> Undefined
               then [Some (HttpResponseCard (cardProps u Response))]
                    @ (if hasResponseBody exchange
                       then [Some (renderResponseBody u exchange)] else [])
               else [])
      in if isWebSocket exchange \<and> wasAccepted exchange
         then (case renderWebSocketMessages u exchange of
                 Inl err \<Rightarrow> Inl err
               | Inr element \<Rightarrow>
                   Inr (cards @ [Some element]
                        @ (if closeState exchange
                           then [Some (WebSocketCloseCard (cardProps u WebSocketClose))]
                           else [])))
         else Inr (cards
                   @ [Some CardDivider,
                      Some (HttpPerformanceCard (cardProps u Performance)),
                      Some (HttpExportCard (cardProps u Export))]))"

text \<open>\<open>render\<close>: the view, and the messages passed to \<open>reportError\<close>.\<close>

definition render ::
  "(jsstring \<Rightarrow> jsstring) \<Rightarrow> (jsstring list \<Rightarrow> 'e option) \<Rightarrow> Pane \<Rightarrow> bool \<Rightarrow> HttpExchange
     \<Rightarrow> JsError + ('e View \<times> jsstring list)" where
  "render startCase tagsToErrorType p isPaidUser exchange =
     (let apiNm = apiName startCase exchange;
          headerCard = renderHeaderCard tagsToErrorType exchange
      in case expandedCard (uiStore p) of
           Some expandedCd \<Rightarrow>
             (case renderExpandedCard (uiStore p) expandedCd exchange of
                Inl err \<Rightarrow> Inl err
              | Inr (element, reports) \<Rightarrow>
                  Inr (ExpandedContentContainer (expandCompleted p) headerCard element, reports))
         | None \<Rightarrow>
             if requestBreakpoint exchange \<or> responseBreakpoint exchange
             then Inr (OuterContainer headerCard
                         (renderBreakpointCards (uiStore p) isPaidUser apiNm exchange), [])
             else (case renderNormalCards (uiStore p) isPaidUser apiNm exchange of
                     Inl err \<Rightarrow> Inl err
                   | Inr cards \<Rightarrow> Inr (OuterContainer headerCard cards, [])))"

section \<open>Ignoring an error\<close>

text \<open>\<open>ignoreError\<close>: one assignment to \<open>exchange.tags\<close>.\<close>

definition ignoreError :: "HttpExchange \<Rightarrow> HttpExchange" where
  "ignoreError exchange =
     exchange\<lparr>tags :=
       filter (\<lambda>t.
         \<not> startsWith t (ascii ''passthrough-error:'') \<and>
         \<not> startsWith t (ascii ''passthrough-tls-error:'') \<and>
         \<not> startsWith t (ascii ''client-error:'') \<and>
         \<not> List.member [ascii ''header-overflow'', ascii ''http-2''] t)
       (tags exchange)\<rparr>"

text \<open>
  The error families as the specification lists them: the tags that begin with
  \<open>passthrough-error:\<close>, \<open>passthrough-tls-error:\<close> or \<open>client-error:\<close>, and the tags
  \<open>header-overflow\<close> and \<open>http-2\<close>. It is what \<open>ignoreError\<close> is compared with below.
\<close>

definition specErrorTag :: "jsstring \<Rightarrow> bool" where
  "specErrorTag t \<longleftrightarrow>
     prefix (ascii ''passthrough-error:'') t \<or>
     prefix (ascii ''passthrough-tls-error:'') t \<or>
     prefix (ascii ''client-error:'') t \<or>
     t = ascii ''header-overflow'' \<or>
     t = ascii ''http-2''"

section \<open>Example states and exchanges\<close>

text \<open>
  Concrete inputs on which the theorems below are evaluated. \<open>startCaseTable\<close> and
  \<open>noErrorType\<close> stand for the two library functions at the inputs used here:
  \<open>_.startCase('getUserAccountDetails')\<close> is \<open>'Get User Account Details'\<close>, and an
  exchange without error tags has no error type.
\<close>

definition startCaseTable :: "jsstring \<Rightarrow> jsstring" where
  "startCaseTable s =
     (if s = ascii ''getUserAccountDetails'' then ascii ''Get User Account Details'' else s)"

definition noErrorType :: "jsstring list \<Rightarrow> unit option" where
  "noErrorType ts = None"

definition longApiName :: jsstring where
  "longApiName =
     ascii ''U.S. EPA Enforcement and Compliance History Online (ECHO) - Enforcement Case Search Service''"

text \<open>The property names of \<open>Object.prototype\<close>, which a plain object inherits.\<close>

definition objectPrototypeNames :: "jsstring list" where
  "objectPrototypeNames =
     [ascii ''constructor'', ascii ''__defineGetter__'', ascii ''__defineSetter__'',
      ascii ''hasOwnProperty'', ascii ''__lookupGetter__'', ascii ''__lookupSetter__'',
      ascii ''isPrototypeOf'', ascii ''propertyIsEnumerable'', ascii ''toString'',
      ascii ''valueOf'', ascii ''__proto__'', ascii ''toLocaleString'']"

definition storeIdle :: UiStore where
  "storeIdle =
     \<lparr>viewCardStates = (\<lambda>k. \<lparr>CardState.collapsed = False\<rparr>),
      inheritedProperties = objectPrototypeNames,
      expandedCard = None\<rparr>"

definition paneIdle :: Pane where
  "paneIdle = \<lparr>uiStore = storeIdle, expandCompleted = True, frameRequests = 0\<rparr>"

definition paneCollapsed :: Pane where
  "paneCollapsed =
     paneIdle\<lparr>uiStore :=
       storeIdle\<lparr>viewCardStates := (\<lambda>k. \<lparr>CardState.collapsed = (k = RequestBody)\<rparr>)\<rparr>\<rparr>"

definition paneRequestExpanded :: Pane where
  "paneRequestExpanded =
     paneIdle\<lparr>uiStore := storeIdle\<lparr>expandedCard := Some ExpRequestBody\<rparr>\<rparr>"


definition paneMessagesExpanded :: Pane where
  "paneMessagesExpanded =
     paneIdle\<lparr>uiStore := storeIdle\<lparr>expandedCard := Some ExpWebSocketMessages\<rparr>\<rparr>"

definition exchangeA :: HttpExchange where
  "exchangeA =
     \<lparr>exchangeId = ascii ''e1'', requestUrl = ascii ''https://example.com/users'',
      requestBreakpoint = False, responseBreakpoint = False, tags = [], api = None,
      response = HtkResponse, closeState = False, hasRequestBody = True,
      hasResponseBody = True, isWebSocket = False, wasAccepted = False,
      isSuccessfulExchange = True\<rparr>"

definition exchangeAborted :: HttpExchange where
  "exchangeAborted = exchangeA\<lparr>response := Aborted, isSuccessfulExchange := False\<rparr>"

definition exchangeSocket :: HttpExchange where
  "exchangeSocket =
     exchangeA\<lparr>requestUrl := ascii ''wss://echo.example.org:443/chat/room1'',
       hasRequestBody := False, hasResponseBody := False,
       isWebSocket := True, wasAccepted := True\<rparr>"

definition exchangeSocketShortUrl :: HttpExchange where
  "exchangeSocketShortUrl = exchangeSocket\<lparr>requestUrl := ascii ''localhost''\<rparr>"

definition exchangeSocketAborted :: HttpExchange where
  "exchangeSocketAborted = exchangeSocket\<lparr>response := Aborted, closeState := True\<rparr>"

definition exchangeTagged :: HttpExchange where
  "exchangeTagged =
     exchangeA\<lparr>tags := [ascii ''client-error:reset'', ascii ''httptoolkit'',
                        ascii ''header-overflow'']\<rparr>"

section \<open>Strings: basic facts\<close>

lemma split_not_Nil: "split sep s \<noteq> []"
  by (induction s) (auto simp add: Let_def)

text \<open>There is one piece more than there are separators.\<close>

lemma length_split: "length (split sep s) = Suc (length (filter (\<lambda>c. c = sep) s))"
proof (induction s)
  case Nil
  show ?case by simp
next
  case (Cons c cs)
  have "length (tl (split sep cs)) = length (filter (\<lambda>c. c = sep) cs)"
    using Cons by simp
  then show ?case using Cons by (simp add: Let_def)
qed

text \<open>What \<open>trimRight\<close> removes is a suffix of white space, and it removes all of it.\<close>

lemma trimRight_decomp:
  "\<exists>ws. s = trimRight s @ ws \<and> (\<forall>c\<in>set ws. isWhiteSpace c)"
proof -
  have "s = rev (rev s)"
    by simp
  also have "\<dots> = rev (takeWhile isWhiteSpace (rev s) @ dropWhile isWhiteSpace (rev s))"
    by (simp only: takeWhile_dropWhile_id)
  also have "\<dots> = trimRight s @ rev (takeWhile isWhiteSpace (rev s))"
    by (simp only: rev_append trimRight_def)
  finally have "s = trimRight s @ rev (takeWhile isWhiteSpace (rev s))" .
  moreover have "\<forall>c\<in>set (rev (takeWhile isWhiteSpace (rev s))). isWhiteSpace c"
    by (auto dest: set_takeWhileD)
  ultimately show ?thesis by blast
qed

lemma trimRight_last:
  "trimRight s = [] \<or> \<not> isWhiteSpace (last (trimRight s))"
proof (cases "dropWhile isWhiteSpace (rev s) = []")
  case True
  then show ?thesis by (simp add: trimRight_def)
next
  case False
  then have "\<not> isWhiteSpace (hd (dropWhile isWhiteSpace (rev s)))"
    by (rule hd_dropWhile)
  then show ?thesis using False by (simp add: trimRight_def last_rev)
qed

lemma length_trimRight: "length (trimRight s) \<le> length s"
proof -
  have "length (dropWhile isWhiteSpace (rev s)) \<le> length (rev s)"
    by (rule length_dropWhile_le)
  then show ?thesis by (simp add: trimRight_def)
qed

section \<open>The display name\<close>

text \<open>
  Claim C5. The name is passed through \<open>startCase\<close> exactly when it has no space and is
  longer than 6 units. If the name so cleaned is at most 75 units long it is the result.
  Otherwise the result is its first 72 units without their trailing white space (\<open>kept\<close>
  below: what is dropped after it is white space only, and it does not end in white
  space), followed by the ellipsis U+2026. The result is a function of the raw name (and
  of the library's \<open>startCase\<close>) alone, and never longer than 75 units.
\<close>

theorem makeFriendlyApiName_display:
  "let cleanedName = (if 0x20 \<notin> set rawName \<and> 6 < length rawName
                      then startCase rawName else rawName);
       friendly = makeFriendlyApiName startCase rawName
   in (length cleanedName \<le> 75 \<longrightarrow> friendly = cleanedName) \<and>
      (75 < length cleanedName \<longrightarrow>
         (\<exists>kept ws. take 72 cleanedName = kept @ ws \<and>
                    (\<forall>c\<in>set ws. isWhiteSpace c) \<and>
                    (kept = [] \<or> \<not> isWhiteSpace (last kept)) \<and>
                    friendly = kept @ [0x2026])) \<and>
      length friendly \<le> 75"
proof -
  define cleanedName where
    "cleanedName = (if 0x20 \<notin> set rawName \<and> 6 < length rawName
                    then startCase rawName else rawName)"
  define friendly where "friendly = makeFriendlyApiName startCase rawName"
  have eq: "friendly = (if length cleanedName > 75
                        then trimRight (take 72 cleanedName) @ [0x2026] else cleanedName)"
    by (simp add: friendly_def cleanedName_def makeFriendlyApiName_def includes_js_def Let_def)
  have short: "length cleanedName \<le> 75 \<longrightarrow> friendly = cleanedName"
    using eq by simp
  have long: "75 < length cleanedName \<longrightarrow>
         (\<exists>kept ws. take 72 cleanedName = kept @ ws \<and>
                    (\<forall>c\<in>set ws. isWhiteSpace c) \<and>
                    (kept = [] \<or> \<not> isWhiteSpace (last kept)) \<and>
                    friendly = kept @ [0x2026])"
  proof
    assume gt: "75 < length cleanedName"
    obtain ws where ws: "take 72 cleanedName = trimRight (take 72 cleanedName) @ ws"
        "\<forall>c\<in>set ws. isWhiteSpace c"
      using trimRight_decomp [of "take 72 cleanedName"] by blast
    have "friendly = trimRight (take 72 cleanedName) @ [0x2026]"
      using eq gt by simp
    then show "\<exists>kept ws. take 72 cleanedName = kept @ ws \<and>
                    (\<forall>c\<in>set ws. isWhiteSpace c) \<and>
                    (kept = [] \<or> \<not> isWhiteSpace (last kept)) \<and>
                    friendly = kept @ [0x2026]"
      using ws trimRight_last [of "take 72 cleanedName"] by blast
  qed
  have len: "length friendly \<le> 75"
  proof (cases "75 < length cleanedName")
    case True
    have "length (trimRight (take 72 cleanedName)) \<le> 72"
      using length_trimRight [of "take 72 cleanedName"] by simp
    then show ?thesis using eq True by simp
  next
    case False
    then show ?thesis using eq by simp
  qed
  show ?thesis
    unfolding Let_def cleanedName_def [symmetric] friendly_def [symmetric]
    using short long len by blast
qed

lemma accountName_facts:
  "0x20 \<notin> set (ascii ''getUserAccountDetails'')"
  "length (ascii ''getUserAccountDetails'') = 21"
  "startCaseTable (ascii ''getUserAccountDetails'') = ascii ''Get User Account Details''"
  by (simp_all add: ascii_def startCaseTable_def)

lemma longApiName_facts:
  "0x20 \<in> set longApiName"
  "length longApiName = 91"
  "take 72 longApiName =
     ascii ''U.S. EPA Enforcement and Compliance History Online (ECHO) - Enforcement ''"
  by (simp_all add: ascii_def longApiName_def)

lemma longApiName_trimmed:
  "trimRight (ascii ''U.S. EPA Enforcement and Compliance History Online (ECHO) - Enforcement '')
     = ascii ''U.S. EPA Enforcement and Compliance History Online (ECHO) - Enforcement''"
  by (simp add: ascii_def isWhiteSpace_def trimRight_def)

text \<open>
  The camel-case name of 21 units is title-cased and kept whole; the name of 91 units,
  which has spaces, is not title-cased and is cut to 71 units and the ellipsis: its 72nd
  unit is a space.
\<close>

theorem makeFriendlyApiName_display_witness:
  "0x20 \<notin> set (ascii ''getUserAccountDetails'') \<and>
   6 < length (ascii ''getUserAccountDetails'') \<and>
   makeFriendlyApiName startCaseTable (ascii ''getUserAccountDetails'')
     = ascii ''Get User Account Details'' \<and>
   0x20 \<in> set longApiName \<and>
   75 < length longApiName \<and>
   (\<exists>kept ws. take 72 longApiName = kept @ ws \<and> (\<forall>c\<in>set ws. isWhiteSpace c) \<and>
      (kept = [] \<or> \<not> isWhiteSpace (last kept)) \<and>
      makeFriendlyApiName startCaseTable longApiName = kept @ [0x2026]) \<and>
   makeFriendlyApiName startCaseTable longApiName
     = ascii ''U.S. EPA Enforcement and Compliance History Online (ECHO) - Enforcement''
       @ [0x2026]"
proof -
  have short: "makeFriendlyApiName startCaseTable (ascii ''getUserAccountDetails'')
                 = ascii ''Get User Account Details''"
    using makeFriendlyApiName_display [of "ascii ''getUserAccountDetails''" startCaseTable]
    unfolding Let_def
    by (simp only: accountName_facts) (simp add: ascii_def)
  have long: "\<exists>kept ws. take 72 longApiName = kept @ ws \<and> (\<forall>c\<in>set ws. isWhiteSpace c) \<and>
      (kept = [] \<or> \<not> isWhiteSpace (last kept)) \<and>
      makeFriendlyApiName startCaseTable longApiName = kept @ [0x2026]"
    using makeFriendlyApiName_display [of longApiName startCaseTable]
    unfolding Let_def
    by (simp add: longApiName_facts(1,2))
  have cut: "makeFriendlyApiName startCaseTable longApiName
               = ascii ''U.S. EPA Enforcement and Compliance History Online (ECHO) - Enforcement''
                 @ [0x2026]"
    by (simp add: makeFriendlyApiName_def longApiName_facts includes_js_def
          longApiName_trimmed)
  show ?thesis
    using short long cut by (simp add: accountName_facts longApiName_facts(1,2))
qed

section \<open>The two transitions\<close>

lemma lookupCardKey_keyName: "lookupCardKey (keyName k) = Some k"
  by (cases k) (simp_all add: lookupCardKey_def cardKeys_def ascii_def)

lemma cardKeyOf_cases:
  "cardKeyOf e = RequestBody \<or> cardKeyOf e = ResponseBody \<or> cardKeyOf e = WebSocketMessages"
  by (cases e) simp_all

lemma cardKeyOf_eq_iff: "(cardKeyOf e' = cardKeyOf e) = (e' = e)"
  by (cases e; cases e') simp_all

text \<open>A key that cannot be expanded is never the expanded card, so neither branch runs.\<close>

lemma toggleExpand_other:
  assumes "k \<noteq> RequestBody" "k \<noteq> ResponseBody" "k \<noteq> WebSocketMessages"
  shows "toggleExpand k p = p"
proof -
  have "map_option cardKeyOf (expandedCard (uiStore p)) \<noteq> Some k"
    using assms cardKeyOf_cases by (cases "expandedCard (uiStore p)") auto
  then show ?thesis using assms by (auto simp add: toggleExpand_def)
qed

lemma toggleExpand_expandable:
  "toggleExpand (cardKeyOf e) p =
     (if expandedCard (uiStore p) = Some e
      then p\<lparr>uiStore := (uiStore p)\<lparr>expandedCard := None\<rparr>\<rparr>
      else expand e p)"
proof (cases "expandedCard (uiStore p)")
  case None
  then show ?thesis by (cases e) (simp_all add: toggleExpand_def)
next
  case (Some e')
  then show ?thesis by (cases e; cases e') (simp_all add: toggleExpand_def)
qed

lemma toggleExpand_twice_expandable:
  "toggleExpand (cardKeyOf e) (toggleExpand (cardKeyOf e) p) =
     (if expandedCard (uiStore p) = Some e
      then expand e p
      else (expand e p)\<lparr>uiStore := (uiStore (expand e p))\<lparr>expandedCard := None\<rparr>\<rparr>)"
  by (simp add: toggleExpand_expandable expand_def)

text \<open>
  Claim C8. \<open>toggleCollapse\<close> at any of the nine keys returns normally; afterwards no card
  is expanded, whichever card was expanded before, the \<open>collapsed\<close> flag of the key is
  flipped, and the flags of the other keys, \<open>expandCompleted\<close> and the pending frame
  callbacks are as before.
\<close>

theorem toggleCollapse_clears_expansion:
  "\<exists>p'. toggleCollapse (keyName k) p = Inr p' \<and>
        expandedCard (uiStore p') = None \<and>
        CardState.collapsed (viewCardStates (uiStore p') k)
          = (\<not> CardState.collapsed (viewCardStates (uiStore p) k)) \<and>
        (\<forall>k'. k' \<noteq> k \<longrightarrow> viewCardStates (uiStore p') k' = viewCardStates (uiStore p) k') \<and>
        expandCompleted p' = expandCompleted p \<and>
        frameRequests p' = frameRequests p"
proof -
  define cardState' where
    "cardState' = (viewCardStates (uiStore p) k)
       \<lparr>CardState.collapsed := \<not> CardState.collapsed (viewCardStates (uiStore p) k)\<rparr>"
  define p' where
    "p' = p\<lparr>uiStore := (uiStore p)
             \<lparr>viewCardStates := (viewCardStates (uiStore p))(k := cardState'),
              expandedCard := None\<rparr>\<rparr>"
  have "toggleCollapse (keyName k) p = Inr p'"
    by (simp add: toggleCollapse_def lookupCardKey_keyName Let_def p'_def cardState'_def)
  moreover have "expandedCard (uiStore p') = None"
    by (simp add: p'_def)
  moreover have "CardState.collapsed (viewCardStates (uiStore p') k)
      = (\<not> CardState.collapsed (viewCardStates (uiStore p) k))"
    by (simp add: p'_def cardState'_def)
  moreover have "\<forall>k'. k' \<noteq> k \<longrightarrow> viewCardStates (uiStore p') k' = viewCardStates (uiStore p) k'"
    by (simp add: p'_def)
  moreover have "expandCompleted p' = expandCompleted p" "frameRequests p' = frameRequests p"
    by (simp_all add: p'_def)
  ultimately show ?thesis by blast
qed

text \<open>
  \<open>toggleExpand(requestBody)\<close> and then \<open>toggleCollapse(request)\<close>: the request body
  was expanded, and collapsing the request card clears that.
\<close>

theorem toggleCollapse_clears_expansion_witness:
  "\<exists>p'. toggleCollapse (keyName Request) (toggleExpand RequestBody paneIdle) = Inr p' \<and>
        expandedCard (uiStore (toggleExpand RequestBody paneIdle)) = Some ExpRequestBody \<and>
        expandedCard (uiStore p') = None \<and>
        CardState.collapsed (viewCardStates (uiStore p') Request) \<and>
        RequestBody \<noteq> Request \<and>
        viewCardStates (uiStore p') RequestBody
          = viewCardStates (uiStore (toggleExpand RequestBody paneIdle)) RequestBody"
proof -
  have before: "expandedCard (uiStore (toggleExpand RequestBody paneIdle)) = Some ExpRequestBody"
    "\<not> CardState.collapsed (viewCardStates (uiStore (toggleExpand RequestBody paneIdle)) Request)"
    by (simp_all add: toggleExpand_def expand_def paneIdle_def storeIdle_def)
  show ?thesis
    using toggleCollapse_clears_expansion [of Request "toggleExpand RequestBody paneIdle"] before
    by auto
qed

lemma set_cardKeys: "set cardKeys = UNIV"
proof -
  have "k \<in> set cardKeys" for k
    by (cases k) (simp_all add: cardKeys_def)
  then show ?thesis by blast
qed

lemma lookupCardKey_None: "lookupCardKey name = None \<longleftrightarrow> name \<notin> range keyName"
  by (auto simp add: lookupCardKey_def find_None_iff set_cardKeys)

text \<open>
  Claim C2, as stated, fails: with the request body card collapsed and no card expanded,
  two calls of \<open>toggleExpand(requestBody)\<close> leave the card not collapsed. The first call
  sets \<open>collapsed\<close> to false, and nothing sets it back.
\<close>

theorem toggleExpand_twice_counterexample:
  "expandedCard (uiStore paneCollapsed) = None \<and>
   CardState.collapsed (viewCardStates (uiStore paneCollapsed) RequestBody) \<and>
   \<not> CardState.collapsed
       (viewCardStates (uiStore (toggleExpand RequestBody (toggleExpand RequestBody paneCollapsed)))
          RequestBody)"
  by (simp add: toggleExpand_def expand_def paneCollapsed_def paneIdle_def storeIdle_def)

text \<open>
  Claim C2, amended. Two calls of \<open>toggleExpand(key)\<close> in a row leave the state as it was
  when the key cannot be expanded. For a key that can, they leave \<open>collapsed[key]\<close> false,
  and \<open>expandedCard\<close> equal to the key if it was the key before and absent otherwise. So
  \<open>expandedCard\<close> and \<open>collapsed[key]\<close> are both back at their prior values exactly when
  the key cannot be expanded, or \<open>collapsed[key]\<close> was false and \<open>expandedCard\<close> was absent
  or the key.
\<close>

theorem toggleExpand_twice:
  "(k \<notin> {RequestBody, ResponseBody, WebSocketMessages} \<longrightarrow>
      toggleExpand k (toggleExpand k p) = p) \<and>
   (k \<in> {RequestBody, ResponseBody, WebSocketMessages} \<longrightarrow>
      \<not> CardState.collapsed (viewCardStates (uiStore (toggleExpand k (toggleExpand k p))) k) \<and>
      map_option cardKeyOf (expandedCard (uiStore (toggleExpand k (toggleExpand k p))))
        = (if map_option cardKeyOf (expandedCard (uiStore p)) = Some k then Some k else None)) \<and>
   ((expandedCard (uiStore (toggleExpand k (toggleExpand k p))) = expandedCard (uiStore p) \<and>
     CardState.collapsed (viewCardStates (uiStore (toggleExpand k (toggleExpand k p))) k)
       = CardState.collapsed (viewCardStates (uiStore p) k))
    \<longleftrightarrow>
    (k \<notin> {RequestBody, ResponseBody, WebSocketMessages} \<or>
     (\<not> CardState.collapsed (viewCardStates (uiStore p) k) \<and>
      (expandedCard (uiStore p) = None \<or>
       map_option cardKeyOf (expandedCard (uiStore p)) = Some k))))"
proof (cases "k \<in> {RequestBody, ResponseBody, WebSocketMessages}")
  case False
  then have "toggleExpand k p = p"
    using toggleExpand_other [of k p] by simp
  then show ?thesis using False by simp
next
  case True
  then have "k = cardKeyOf ExpRequestBody \<or> k = cardKeyOf ExpResponseBody
      \<or> k = cardKeyOf ExpWebSocketMessages"
    by simp
  then obtain e where k: "k = cardKeyOf e"
    by blast
  show ?thesis
    unfolding k toggleExpand_twice_expandable
    using cardKeyOf_cases [of e]
    by (cases "expandedCard (uiStore p)") (auto simp add: expand_def cardKeyOf_eq_iff)
qed

text \<open>
  From the idle pane, expanding the request body and toggling it again restores both
  values; toggling the API card, which cannot be expanded, twice changes nothing.
\<close>

theorem toggleExpand_twice_witness:
  "RequestBody \<in> {RequestBody, ResponseBody, WebSocketMessages} \<and>
   \<not> CardState.collapsed (viewCardStates (uiStore paneIdle) RequestBody) \<and>
   expandedCard (uiStore paneIdle) = None \<and>
   expandedCard (uiStore (toggleExpand RequestBody paneIdle)) = Some ExpRequestBody \<and>
   expandedCard (uiStore (toggleExpand RequestBody (toggleExpand RequestBody paneIdle))) = None \<and>
   \<not> CardState.collapsed
       (viewCardStates (uiStore (toggleExpand RequestBody (toggleExpand RequestBody paneIdle)))
          RequestBody) \<and>
   Api \<notin> {RequestBody, ResponseBody, WebSocketMessages} \<and>
   toggleExpand Api (toggleExpand Api paneIdle) = paneIdle"
proof -
  have start: "\<not> CardState.collapsed (viewCardStates (uiStore paneIdle) RequestBody)"
    "expandedCard (uiStore paneIdle) = None"
    "expandedCard (uiStore (toggleExpand RequestBody paneIdle)) = Some ExpRequestBody"
    by (simp_all add: paneIdle_def storeIdle_def toggleExpand_def expand_def)
  show ?thesis
    using toggleExpand_twice [of RequestBody paneIdle] toggleExpand_twice [of Api paneIdle] start
    by simp
qed

lemma paneIdle_inherited:
  "inheritedProperties (uiStore paneIdle) = objectPrototypeNames"
  "inheritedProperties (uiStore paneRequestExpanded) = objectPrototypeNames"
  by (simp_all add: paneIdle_def paneRequestExpanded_def storeIdle_def)

lemma sidebar_facts:
  "lookupCardKey (ascii ''sidebar'') = None"
  "ascii ''sidebar'' \<notin> set objectPrototypeNames"
  by (simp_all add: lookupCardKey_def cardKeys_def objectPrototypeNames_def ascii_def)

lemma constructor_facts:
  "lookupCardKey (ascii ''constructor'') = None"
  "ascii ''constructor'' \<in> set objectPrototypeNames"
  by (simp_all add: lookupCardKey_def cardKeys_def objectPrototypeNames_def ascii_def)

text \<open>
  Claim C3, as stated, fails in its second half: \<open>toggleCollapse\<close> on a string that
  names no card and no inherited property reads \<open>collapsed\<close> of \<open>undefined\<close> and throws.
\<close>

theorem toggleCollapse_unknown_key_counterexample:
  "ascii ''sidebar'' \<notin> set (map keyName cardKeys) \<and>
   ascii ''sidebar'' \<notin> set (inheritedProperties (uiStore paneIdle)) \<and>
   toggleCollapse (ascii ''sidebar'') paneIdle = Inl TypeError"
proof -
  have "ascii ''sidebar'' \<notin> set (map keyName cardKeys)"
    using sidebar_facts(1) lookupCardKey_None [of "ascii ''sidebar''"]
    by (simp add: set_cardKeys)
  then show ?thesis
    by (simp add: toggleCollapse_def sidebar_facts paneIdle_inherited)
qed

text \<open>
  Claim C3, amended. \<open>toggleExpand\<close> on a key that cannot be expanded returns the state
  unchanged (nothing is scheduled either). \<open>toggleCollapse\<close> on each of the nine card keys
  returns normally, and with a changed state. On a string that is not one of the nine
  names it is no no-op either: where \<open>viewCardStates\<close> has no property of that name it
  throws a TypeError, and where it inherits one (\<open>constructor\<close>, say) it returns normally
  with every \<open>collapsed\<close> flag as before and \<open>expandedCard\<close> cleared. The two transitions
  are total on the card keys, not on all strings.
\<close>

theorem transitions_total_on_card_keys:
  "(k \<notin> {RequestBody, ResponseBody, WebSocketMessages} \<longrightarrow> toggleExpand k p = p) \<and>
   (\<exists>p'. toggleCollapse (keyName k) p = Inr p' \<and> p' \<noteq> p) \<and>
   (name \<notin> range keyName \<and> name \<notin> set (inheritedProperties (uiStore p)) \<longrightarrow>
      toggleCollapse name p = Inl TypeError) \<and>
   (name \<notin> range keyName \<and> name \<in> set (inheritedProperties (uiStore p)) \<longrightarrow>
      toggleCollapse name p = Inr (p\<lparr>uiStore := (uiStore p)\<lparr>expandedCard := None\<rparr>\<rparr>))"
proof -
  have a: "k \<notin> {RequestBody, ResponseBody, WebSocketMessages} \<longrightarrow> toggleExpand k p = p"
    using toggleExpand_other [of k p] by simp
  obtain p' where p': "toggleCollapse (keyName k) p = Inr p'"
    "CardState.collapsed (viewCardStates (uiStore p') k)
          = (\<not> CardState.collapsed (viewCardStates (uiStore p) k))"
    by (simp add: toggleCollapse_def lookupCardKey_keyName Let_def)
  have "p' \<noteq> p" using p'(2) by auto
  then have b: "\<exists>p'. toggleCollapse (keyName k) p = Inr p' \<and> p' \<noteq> p"
    using p'(1) by blast
  have c: "name \<notin> range keyName \<and> name \<notin> set (inheritedProperties (uiStore p)) \<longrightarrow>
      toggleCollapse name p = Inl TypeError"
    by (simp add: toggleCollapse_def lookupCardKey_None [symmetric])
  have d: "name \<notin> range keyName \<and> name \<in> set (inheritedProperties (uiStore p)) \<longrightarrow>
      toggleCollapse name p = Inr (p\<lparr>uiStore := (uiStore p)\<lparr>expandedCard := None\<rparr>\<rparr>)"
    by (simp add: toggleCollapse_def lookupCardKey_None [symmetric])
  show ?thesis using a b c d by blast
qed

text \<open>
  With the request body expanded: \<open>toggleExpand(api)\<close> changes nothing,
  \<open>toggleCollapse(api)\<close> returns a different state, \<open>toggleCollapse\<close> of the unknown
  name \<open>sidebar\<close> throws, and \<open>toggleCollapse\<close> of the inherited name \<open>constructor\<close>
  returns the idle pane: the expansion is gone.
\<close>

theorem transitions_total_on_card_keys_witness:
  "Api \<notin> {RequestBody, ResponseBody, WebSocketMessages} \<and>
   toggleExpand Api paneRequestExpanded = paneRequestExpanded \<and>
   (\<exists>p'. toggleCollapse (keyName Api) paneRequestExpanded = Inr p' \<and> p' \<noteq> paneRequestExpanded) \<and>
   ascii ''sidebar'' \<notin> range keyName \<and>
   ascii ''sidebar'' \<notin> set (inheritedProperties (uiStore paneRequestExpanded)) \<and>
   toggleCollapse (ascii ''sidebar'') paneRequestExpanded = Inl TypeError \<and>
   ascii ''constructor'' \<notin> range keyName \<and>
   ascii ''constructor'' \<in> set (inheritedProperties (uiStore paneRequestExpanded)) \<and>
   toggleCollapse (ascii ''constructor'') paneRequestExpanded = Inr paneIdle \<and>
   paneIdle \<noteq> paneRequestExpanded"
proof -
  have names: "ascii ''sidebar'' \<notin> range keyName" "ascii ''constructor'' \<notin> range keyName"
    using sidebar_facts(1) constructor_facts(1)
      lookupCardKey_None [of "ascii ''sidebar''"] lookupCardKey_None [of "ascii ''constructor''"]
    by blast+
  have cleared: "paneRequestExpanded\<lparr>uiStore := (uiStore paneRequestExpanded)\<lparr>expandedCard := None\<rparr>\<rparr>
      = paneIdle"
    by (simp add: paneRequestExpanded_def paneIdle_def storeIdle_def)
  have differ: "paneIdle \<noteq> paneRequestExpanded"
  proof
    assume "paneIdle = paneRequestExpanded"
    then have "expandedCard (uiStore paneIdle) = expandedCard (uiStore paneRequestExpanded)"
      by simp
    then show False
      by (simp add: paneRequestExpanded_def paneIdle_def storeIdle_def)
  qed
  show ?thesis
    using transitions_total_on_card_keys [of Api paneRequestExpanded "ascii ''sidebar''"]
      transitions_total_on_card_keys [of Api paneRequestExpanded "ascii ''constructor''"]
      names cleared differ sidebar_facts(2) constructor_facts(2)
    by (simp add: paneIdle_inherited)
qed


section \<open>The deferred clearing of the pending flag\<close>

lemma frameCallback_idempotent:
  "expandCompleted (frameCallback p)" "frameCallback (frameCallback p) = frameCallback p"
  by (simp_all add: frameCallback_def)






section \<open>Ignoring an error: what is removed\<close>

lemma startsWith_prefix: "startsWith s p \<longleftrightarrow> prefix p s"
proof
  assume "startsWith s p"
  then have "take (length p) s = p" by (simp add: startsWith_def)
  then have "s = p @ drop (length p) s"
    using append_take_drop_id [of "length p" s] by simp
  then show "prefix p s" by (rule prefixI)
next
  assume "prefix p s"
  then obtain zs where "s = p @ zs" by (rule prefixE)
  then show "startsWith s p" by (simp add: startsWith_def)
qed

lemma ignoreError_keeps: 
  "(\<not> startsWith t (ascii ''passthrough-error:'') \<and>
         \<not> startsWith t (ascii ''passthrough-tls-error:'') \<and>
         \<not> startsWith t (ascii ''client-error:'') \<and>
         \<not> List.member [ascii ''header-overflow'', ascii ''http-2''] t) = (\<not> specErrorTag t)"
  by (auto simp add: specErrorTag_def startsWith_prefix)

lemma count_list_filter:
  "P t \<Longrightarrow> count_list (filter P ts) t = count_list ts t"
  by (induction ts) auto

text \<open>
  Claim C6. \<open>ignoreError\<close> changes the exchange in its tags only, in one assignment. The
  new tags are the old ones without the tags of the error families: none of them is left,
  the tags left are in their original order, and every other tag is there as often as
  before.
\<close>

theorem ignoreError_removes_error_tags:
  "ignoreError exchange = exchange\<lparr>tags := filter (\<lambda>t. \<not> specErrorTag t) (tags exchange)\<rparr> \<and>
   (\<forall>t\<in>set (tags (ignoreError exchange)). \<not> specErrorTag t) \<and>
   subseq (tags (ignoreError exchange)) (tags exchange) \<and>
   (\<forall>t. \<not> specErrorTag t \<longrightarrow>
      count_list (tags (ignoreError exchange)) t = count_list (tags exchange) t)"
proof -
  have eq: "ignoreError exchange = exchange\<lparr>tags := filter (\<lambda>t. \<not> specErrorTag t) (tags exchange)\<rparr>"
    by (simp only: ignoreError_def ignoreError_keeps)
  have none: "\<forall>t\<in>set (tags (ignoreError exchange)). \<not> specErrorTag t"
    by (simp add: eq)
  have order: "subseq (tags (ignoreError exchange)) (tags exchange)"
    by (simp add: eq)
  have kept: "\<forall>t. \<not> specErrorTag t \<longrightarrow>
      count_list (tags (ignoreError exchange)) t = count_list (tags exchange) t"
    by (simp add: eq count_list_filter)
  show ?thesis using eq none order kept by blast
qed

lemma exchangeTagged_facts:
  "specErrorTag (ascii ''client-error:reset'')"
  "\<not> specErrorTag (ascii ''httptoolkit'')"
  "specErrorTag (ascii ''header-overflow'')"
  by (simp_all add: specErrorTag_def startsWith_prefix [symmetric] startsWith_def ascii_def)

text \<open>
  The tags \<open>client-error:reset\<close>, \<open>httptoolkit\<close>, \<open>header-overflow\<close>: both error tags go,
  the third tag stays.
\<close>

theorem ignoreError_removes_error_tags_witness:
  "tags exchangeTagged = [ascii ''client-error:reset'', ascii ''httptoolkit'', ascii ''header-overflow''] \<and>
   specErrorTag (ascii ''client-error:reset'') \<and>
   specErrorTag (ascii ''header-overflow'') \<and>
   \<not> specErrorTag (ascii ''httptoolkit'') \<and>
   tags (ignoreError exchangeTagged) = [ascii ''httptoolkit''] \<and>
   count_list (tags (ignoreError exchangeTagged)) (ascii ''httptoolkit'') = 1"
proof -
  have t: "tags exchangeTagged =
      [ascii ''client-error:reset'', ascii ''httptoolkit'', ascii ''header-overflow'']"
    by (simp add: exchangeTagged_def exchangeA_def)
  have "ignoreError exchangeTagged =
      exchangeTagged\<lparr>tags := filter (\<lambda>t. \<not> specErrorTag t) (tags exchangeTagged)\<rparr>"
    using ignoreError_removes_error_tags [of exchangeTagged] by blast
  then have "tags (ignoreError exchangeTagged) = [ascii ''httptoolkit'']"
    by (simp add: t exchangeTagged_facts)
  then show ?thesis
    using t exchangeTagged_facts by simp
qed

section \<open>What is rendered\<close>

lemma panels_simps:
  "panels [] = []"
  "panels (None # cards) = panels cards"
  "panels (Some element # cards) = panelOf element # panels cards"
  by (simp_all add: panels_def shown_def)

lemma panels_append: "panels (xs @ ys) = panels xs @ panels ys"
  by (simp add: panels_def shown_def map_filter_def)

lemma panels_Cons: "panels (c # cards) = panels [c] @ panels cards"
  by (cases c) (simp_all add: panels_simps)

lemma apiName_unmatched:
  "\<forall>a. api exchange = Some a \<longrightarrow> \<not> matchedOperation a \<Longrightarrow> apiName startCase exchange = None"
  by (simp add: apiName_def split: option.split)

lemma panels_renderApiCard: "set (panels [renderApiCard u isPaidUser apiNm]) \<subseteq> {Card Api}"
  by (auto simp add: renderApiCard_def panels_simps cardProps_def split: option.split)

lemma panelOf_renderRequestBody: "panelOf (renderRequestBody u exchange) = Card RequestBody"
  by (simp add: renderRequestBody_def requestBodyParams_def cardProps_def)

lemma panelOf_renderResponseBody: "panelOf (renderResponseBody u exchange) = Card ResponseBody"
  by (simp add: renderResponseBody_def responseBodyParams_def cardProps_def)

lemma renderWebSocketMessages_throws_iff:
  "renderWebSocketMessages u exchange = Inl TypeError
     \<longleftrightarrow> length (split 0x2F (requestUrl exchange)) < 3"
  by (auto simp add: renderWebSocketMessages_def Let_def)

lemma renderWebSocketMessages_returns:
  assumes "3 \<le> length (split 0x2F (requestUrl exchange))"
  shows "\<exists>reactKey filenamePrefix.
           renderWebSocketMessages u exchange
             = Inr (StreamMessageListCard (cardProps u WebSocketMessages) reactKey filenamePrefix)"
  using assms by (simp add: renderWebSocketMessages_def Let_def)

text \<open>
  Claim C1. An exchange without a breakpoint, with a request body, a response that has
  a body, not a WebSocket and matching no API operation, shown to a paid user with no
  card expanded: \<open>render\<close> returns the outer container, reports nothing, and the cards are
  the \<open>null\<close> of the API card followed by the request card, the request body, the response
  card, the response body, the divider, the performance card and the export card. The
  panels shown are therefore request, requestBody, response, responseBody, divider,
  performance, export, in this order.
\<close>

theorem render_normal_panel_order:
  assumes "\<not> requestBreakpoint exchange" and "\<not> responseBreakpoint exchange"
    and "hasRequestBody exchange" and "hasResponseBody exchange"
    and "response exchange = HtkResponse"
    and "\<not> isWebSocket exchange"
    and "\<forall>a. api exchange = Some a \<longrightarrow> \<not> matchedOperation a"
    and "expandedCard (uiStore p) = None"
  shows "\<exists>cards.
           render startCase tagsToErrorType p True exchange
             = Inr (OuterContainer (renderHeaderCard tagsToErrorType exchange) cards, []) \<and>
           cards = [None,
                    Some (HttpRequestCard (cardProps (uiStore p) Request)),
                    Some (HttpBodyCard (requestBodyParams (uiStore p))),
                    Some (HttpResponseCard (cardProps (uiStore p) Response)),
                    Some (HttpBodyCard (responseBodyParams (uiStore p))),
                    Some CardDivider,
                    Some (HttpPerformanceCard (cardProps (uiStore p) Performance)),
                    Some (HttpExportCard (cardProps (uiStore p) Export))] \<and>
           panels cards = [Card Request, Card RequestBody, Card Response, Card ResponseBody,
                           Divider, Card Performance, Card Export]"
proof -
  have noApi: "apiName startCase exchange = None"
    using assms(7) by (rule apiName_unmatched)
  have cards: "renderNormalCards (uiStore p) True None exchange =
      Inr [None,
           Some (HttpRequestCard (cardProps (uiStore p) Request)),
           Some (HttpBodyCard (requestBodyParams (uiStore p))),
           Some (HttpResponseCard (cardProps (uiStore p) Response)),
           Some (HttpBodyCard (responseBodyParams (uiStore p))),
           Some CardDivider,
           Some (HttpPerformanceCard (cardProps (uiStore p) Performance)),
           Some (HttpExportCard (cardProps (uiStore p) Export))]"
    using assms(1-6)
    by (simp add: renderNormalCards_def renderApiCard_def renderRequestBody_def
          renderResponseBody_def)
  have view: "render startCase tagsToErrorType p True exchange
      = Inr (OuterContainer (renderHeaderCard tagsToErrorType exchange)
          [None,
           Some (HttpRequestCard (cardProps (uiStore p) Request)),
           Some (HttpBodyCard (requestBodyParams (uiStore p))),
           Some (HttpResponseCard (cardProps (uiStore p) Response)),
           Some (HttpBodyCard (responseBodyParams (uiStore p))),
           Some CardDivider,
           Some (HttpPerformanceCard (cardProps (uiStore p) Performance)),
           Some (HttpExportCard (cardProps (uiStore p) Export))], [])"
    using assms(1,2,8) by (simp add: render_def noApi cards)
  show ?thesis
    using view
    by (simp add: panels_simps cardProps_def requestBodyParams_def responseBodyParams_def)
qed


lemma exchangeA_facts:
  "\<not> requestBreakpoint exchangeA" "\<not> responseBreakpoint exchangeA"
  "hasRequestBody exchangeA" "hasResponseBody exchangeA"
  "response exchangeA = HtkResponse" "\<not> isWebSocket exchangeA"
  "api exchangeA = None" "tags exchangeA = []"
  by (simp_all add: exchangeA_def)

lemma paneIdle_facts:
  "expandedCard (uiStore paneIdle) = None"
  "cardProps (uiStore paneIdle) k = \<lparr>key = k, expanded = False, collapsed = False\<rparr>"
  by (simp_all add: paneIdle_def storeIdle_def cardProps_def)

text \<open>The exchange \<open>exchangeA\<close> in the idle pane.\<close>

theorem render_normal_panel_order_witness:
  "\<not> requestBreakpoint exchangeA \<and> \<not> responseBreakpoint exchangeA \<and>
   hasRequestBody exchangeA \<and> hasResponseBody exchangeA \<and>
   response exchangeA = HtkResponse \<and> \<not> isWebSocket exchangeA \<and>
   api exchangeA = None \<and> expandedCard (uiStore paneIdle) = None \<and>
   (\<exists>cards. render startCaseTable noErrorType paneIdle True exchangeA
              = Inr (OuterContainer None cards, []) \<and>
            panels cards = [Card Request, Card RequestBody, Card Response, Card ResponseBody,
                            Divider, Card Performance, Card Export])"
proof -
  have "\<forall>a. api exchangeA = Some a \<longrightarrow> \<not> matchedOperation a"
    by (simp add: exchangeA_facts)
  then have "\<exists>cards. render startCaseTable noErrorType paneIdle True exchangeA
              = Inr (OuterContainer (renderHeaderCard noErrorType exchangeA) cards, []) \<and>
            panels cards = [Card Request, Card RequestBody, Card Response, Card ResponseBody,
                            Divider, Card Performance, Card Export]"
    using render_normal_panel_order [of exchangeA paneIdle startCaseTable noErrorType]
      exchangeA_facts(1-6) paneIdle_facts(1)
    by blast
  moreover have "renderHeaderCard noErrorType exchangeA = None"
    by (simp add: renderHeaderCard_def exchangeA_facts noErrorType_def)
  ultimately show ?thesis
    using exchangeA_facts paneIdle_facts(1) by simp
qed

lemma exchangeAborted_facts:
  "\<not> requestBreakpoint exchangeAborted" "\<not> responseBreakpoint exchangeAborted"
  "hasRequestBody exchangeAborted" "hasResponseBody exchangeAborted"
  "response exchangeAborted = Aborted" "\<not> isWebSocket exchangeAborted"
  "api exchangeAborted = None" "tags exchangeAborted = []"
  by (simp_all add: exchangeAborted_def exchangeA_def)

text \<open>
  Claim C7, as stated, fails when a card is expanded: \<open>render\<close> then returns the expanded
  container with that one card, here the request body, and the notice of the aborted
  response is not part of it.
\<close>

theorem render_aborted_expanded_counterexample:
  "\<not> requestBreakpoint exchangeAborted \<and> \<not> responseBreakpoint exchangeAborted \<and>
   response exchangeAborted = Aborted \<and>
   render startCaseTable noErrorType paneRequestExpanded True exchangeAborted
     = Inr (ExpandedContentContainer True None
              (Some (HttpBodyCard (requestBodyParams (uiStore paneRequestExpanded)))), [])"
  by (simp add: render_def renderExpandedCard_def renderRequestBody_def renderHeaderCard_def
        exchangeAborted_facts noErrorType_def paneRequestExpanded_def paneIdle_def storeIdle_def)

text \<open>
  Claim C7, amended. An exchange without a breakpoint whose response is \<open>'aborted'\<close>, with
  no card expanded, and whose URL has at least three pieces if it is an accepted
  WebSocket: \<open>render\<close> returns the outer container, and its cards are some cards of the
  API, request and request body panels, then the notice of the aborted response (a
  \<open>CollapsibleCard\<close> with the props of the response key), then some cards of the WebSocket,
  divider, performance and export panels. No card of the response body is among them,
  whatever \<open>hasResponseBody()\<close> says.
\<close>

theorem render_aborted_notice:
  assumes "\<not> requestBreakpoint exchange" and "\<not> responseBreakpoint exchange"
    and "response exchange = Aborted"
    and "expandedCard (uiStore p) = None"
    and "isWebSocket exchange \<and> wasAccepted exchange
           \<longrightarrow> 3 \<le> length (split 0x2F (requestUrl exchange))"
  shows "\<exists>before after.
           render startCase tagsToErrorType p isPaidUser exchange
             = Inr (OuterContainer (renderHeaderCard tagsToErrorType exchange)
                      (before @ [Some (CollapsibleCard (cardProps (uiStore p) Response))] @ after),
                    []) \<and>
           set (panels before) \<subseteq> {Card Api, Card Request, Card RequestBody} \<and>
           set (panels after)
             \<subseteq> {Card WebSocketMessages, Card WebSocketClose, Divider,
                 Card Performance, Card Export} \<and>
           Card ResponseBody
             \<notin> set (panels (before @ [Some (CollapsibleCard (cardProps (uiStore p) Response))]
                             @ after))"
proof -
  define u where "u = uiStore p"
  define apiNm where "apiNm = apiName startCase exchange"
  define before where
    "before = [renderApiCard u isPaidUser apiNm, Some (HttpRequestCard (cardProps u Request))]
              @ (if hasRequestBody exchange then [Some (renderRequestBody u exchange)] else [])"
  have "panels before
      = panels [renderApiCard u isPaidUser apiNm]
        @ Card Request # (if hasRequestBody exchange then [Card RequestBody] else [])"
    unfolding before_def
    by (subst append_Cons, subst panels_Cons)
       (simp add: panels_simps panelOf_renderRequestBody cardProps_def)
  then have before: "set (panels before) \<subseteq> {Card Api, Card Request, Card RequestBody}"
    using panels_renderApiCard [of u isPaidUser apiNm] by auto
  have "\<exists>after. renderNormalCards u isPaidUser apiNm exchange
            = Inr (before @ [Some (CollapsibleCard (cardProps u Response))] @ after) \<and>
          set (panels after)
            \<subseteq> {Card WebSocketMessages, Card WebSocketClose, Divider,
                Card Performance, Card Export}"
  proof (cases "isWebSocket exchange \<and> wasAccepted exchange")
    case True
    then obtain reactKey filenamePrefix where
      "renderWebSocketMessages u exchange
         = Inr (StreamMessageListCard (cardProps u WebSocketMessages) reactKey filenamePrefix)"
      using assms(5) renderWebSocketMessages_returns [of exchange u] by blast
    then have "renderNormalCards u isPaidUser apiNm exchange
        = Inr (before @ [Some (CollapsibleCard (cardProps u Response))]
               @ ([Some (StreamMessageListCard (cardProps u WebSocketMessages) reactKey
                           filenamePrefix)]
                  @ (if closeState exchange
                     then [Some (WebSocketCloseCard (cardProps u WebSocketClose))] else [])))"
      using True assms(3) by (simp add: renderNormalCards_def before_def)
    moreover have "set (panels ([Some (StreamMessageListCard (cardProps u WebSocketMessages)
                                    reactKey filenamePrefix)]
                  @ (if closeState exchange
                     then [Some (WebSocketCloseCard (cardProps u WebSocketClose))] else [])))
        \<subseteq> {Card WebSocketMessages, Card WebSocketClose, Divider,
                Card Performance, Card Export}"
      by (simp add: panels_simps cardProps_def)
    ultimately show ?thesis by blast
  next
    case False
    then have "renderNormalCards u isPaidUser apiNm exchange
        = Inr (before @ [Some (CollapsibleCard (cardProps u Response))]
               @ [Some CardDivider,
                  Some (HttpPerformanceCard (cardProps u Performance)),
                  Some (HttpExportCard (cardProps u Export))])"
      using assms(3) by (auto simp add: renderNormalCards_def before_def)
    moreover have "set (panels [Some CardDivider,
                  Some (HttpPerformanceCard (cardProps u Performance)),
                  Some (HttpExportCard (cardProps u Export))])
        \<subseteq> {Card WebSocketMessages, Card WebSocketClose, Divider,
                Card Performance, Card Export}"
      by (simp add: panels_simps cardProps_def)
    ultimately show ?thesis by blast
  qed
  then obtain after where after:
    "renderNormalCards u isPaidUser apiNm exchange
       = Inr (before @ [Some (CollapsibleCard (cardProps u Response))] @ after)"
    "set (panels after)
       \<subseteq> {Card WebSocketMessages, Card WebSocketClose, Divider, Card Performance, Card Export}"
    by blast
  have view: "render startCase tagsToErrorType p isPaidUser exchange
      = Inr (OuterContainer (renderHeaderCard tagsToErrorType exchange)
               (before @ [Some (CollapsibleCard (cardProps u Response))] @ after), [])"
    using assms(1,2,4) after(1) by (simp add: render_def u_def apiNm_def)
  have none: "Card ResponseBody
      \<notin> set (panels (before @ [Some (CollapsibleCard (cardProps u Response))] @ after))"
    using before after(2) by (auto simp add: panels_append panels_simps cardProps_def)
  show ?thesis
    using view before after(2) none unfolding u_def by blast
qed


lemma socketUrl_pieces:
  "split 0x2F (requestUrl exchangeSocket)
     = [ascii ''wss:'', [], ascii ''echo.example.org:443'', ascii ''chat'', ascii ''room1'']"
  by (simp add: exchangeSocket_def exchangeA_def ascii_def Let_def)

lemma shortUrl_pieces:
  "split 0x2F (requestUrl exchangeSocketShortUrl) = [ascii ''localhost'']"
  by (simp add: exchangeSocketShortUrl_def exchangeSocket_def exchangeA_def ascii_def Let_def)

lemma exchangeSocketAborted_facts:
  "\<not> requestBreakpoint exchangeSocketAborted" "\<not> responseBreakpoint exchangeSocketAborted"
  "response exchangeSocketAborted = Aborted"
  "isWebSocket exchangeSocketAborted" "wasAccepted exchangeSocketAborted"
  "requestUrl exchangeSocketAborted = requestUrl exchangeSocket"
  by (simp_all add: exchangeSocketAborted_def exchangeSocket_def exchangeAborted_def exchangeA_def)

text \<open>
  An aborted exchange that declares a response body, and an aborted accepted WebSocket
  whose URL has five pieces, both in the idle pane.
\<close>

theorem render_aborted_notice_witness:
  "\<not> requestBreakpoint exchangeAborted \<and> \<not> responseBreakpoint exchangeAborted \<and>
   response exchangeAborted = Aborted \<and> hasResponseBody exchangeAborted \<and>
   \<not> isWebSocket exchangeAborted \<and>
   expandedCard (uiStore paneIdle) = None \<and>
   (\<exists>before after.
      render startCaseTable noErrorType paneIdle True exchangeAborted
        = Inr (OuterContainer (renderHeaderCard noErrorType exchangeAborted)
                 (before @ [Some (CollapsibleCard (cardProps (uiStore paneIdle) Response))]
                    @ after), []) \<and>
      Card ResponseBody
        \<notin> set (panels (before @ [Some (CollapsibleCard (cardProps (uiStore paneIdle) Response))]
                        @ after))) \<and>
   \<not> requestBreakpoint exchangeSocketAborted \<and> \<not> responseBreakpoint exchangeSocketAborted \<and>
   response exchangeSocketAborted = Aborted \<and>
   isWebSocket exchangeSocketAborted \<and> wasAccepted exchangeSocketAborted \<and>
   length (split 0x2F (requestUrl exchangeSocketAborted)) = 5 \<and>
   (\<exists>before after.
      render startCaseTable noErrorType paneIdle True exchangeSocketAborted
        = Inr (OuterContainer (renderHeaderCard noErrorType exchangeSocketAborted)
                 (before @ [Some (CollapsibleCard (cardProps (uiStore paneIdle) Response))]
                    @ after), []) \<and>
      Card ResponseBody
        \<notin> set (panels (before @ [Some (CollapsibleCard (cardProps (uiStore paneIdle) Response))]
                        @ after)))"
proof -
  have plain: "\<exists>before after.
      render startCaseTable noErrorType paneIdle True exchangeAborted
        = Inr (OuterContainer (renderHeaderCard noErrorType exchangeAborted)
                 (before @ [Some (CollapsibleCard (cardProps (uiStore paneIdle) Response))]
                    @ after), []) \<and>
      Card ResponseBody
        \<notin> set (panels (before @ [Some (CollapsibleCard (cardProps (uiStore paneIdle) Response))]
                        @ after))"
    using render_aborted_notice [of exchangeAborted paneIdle startCaseTable noErrorType True]
      exchangeAborted_facts paneIdle_facts(1)
    by blast
  have pieces: "length (split 0x2F (requestUrl exchangeSocketAborted)) = 5"
    by (simp add: exchangeSocketAborted_facts socketUrl_pieces)
  have socket: "\<exists>before after.
      render startCaseTable noErrorType paneIdle True exchangeSocketAborted
        = Inr (OuterContainer (renderHeaderCard noErrorType exchangeSocketAborted)
                 (before @ [Some (CollapsibleCard (cardProps (uiStore paneIdle) Response))]
                    @ after), []) \<and>
      Card ResponseBody
        \<notin> set (panels (before @ [Some (CollapsibleCard (cardProps (uiStore paneIdle) Response))]
                        @ after))"
    using render_aborted_notice [of exchangeSocketAborted paneIdle startCaseTable noErrorType True]
      exchangeSocketAborted_facts paneIdle_facts(1) pieces
    by force
  show ?thesis
    using plain socket pieces exchangeAborted_facts exchangeSocketAborted_facts paneIdle_facts(1)
    by simp
qed


lemma renderNormalCards_throws:
  assumes "isWebSocket exchange" and "wasAccepted exchange"
    and "renderWebSocketMessages u exchange = Inl TypeError"
  shows "renderNormalCards u isPaidUser apiNm exchange = Inl TypeError"
  using assms by (simp add: renderNormalCards_def Let_def)

lemma renderExpandedCard_throws:
  assumes "isWebSocket exchange" and "wasAccepted exchange"
    and "renderWebSocketMessages u exchange = Inl TypeError"
  shows "renderExpandedCard u ExpWebSocketMessages exchange = Inl TypeError"
  using assms by (simp add: renderExpandedCard_def)

text \<open>
  The two ways \<open>renderExpandedCard\<close> ends when nothing throws: an expanded key that the
  exchange cannot show is reported and gives \<open>null\<close>; any other gives the card of that key.
\<close>

lemma renderExpandedCard_cannot_show:
  assumes "(e = ExpResponseBody \<and> \<not> isSuccessfulExchange exchange \<and> \<not> responseBreakpoint exchange)
           \<or> (e = ExpWebSocketMessages \<and> \<not> (isWebSocket exchange \<and> wasAccepted exchange))"
  shows "renderExpandedCard u e exchange
           = Inr (None, [ascii ''Expanded '' @ keyName (cardKeyOf e)
                           @ ascii '', but can't show anything''])"
  using assms by (auto simp add: renderExpandedCard_def)

lemma renderExpandedCard_shows:
  assumes "e = ExpResponseBody \<longrightarrow> isSuccessfulExchange exchange \<or> responseBreakpoint exchange"
    and "e = ExpWebSocketMessages \<longrightarrow> isWebSocket exchange \<and> wasAccepted exchange
           \<and> 3 \<le> length (split 0x2F (requestUrl exchange))"
  shows "\<exists>element. renderExpandedCard u e exchange = Inr (Some element, [])
           \<and> panelOf element = Card (cardKeyOf e)"
proof (cases e)
  case ExpRequestBody
  then show ?thesis
    by (simp add: renderExpandedCard_def panelOf_renderRequestBody)
next
  case ExpResponseBody
  then show ?thesis
    using assms(1) by (simp add: renderExpandedCard_def panelOf_renderResponseBody)
next
  case ExpWebSocketMessages
  then obtain reactKey filenamePrefix where
    "renderWebSocketMessages u exchange
       = Inr (StreamMessageListCard (cardProps u WebSocketMessages) reactKey filenamePrefix)"
    using assms(2) renderWebSocketMessages_returns [of exchange u] by blast
  then show ?thesis
    using ExpWebSocketMessages assms(2) by (simp add: renderExpandedCard_def cardProps_def)
qed

text \<open>
  Claim C10. \<open>renderWebSocketMessages\<close> throws a TypeError exactly when the URL has fewer
  than three pieces between its slashes, that is fewer than two slashes. For an accepted
  WebSocket with such a URL, both callers throw with it: \<open>renderNormalCards\<close> returns no
  cards, and \<open>renderExpandedCard\<close> at the key \<open>webSocketMessages\<close> returns no card.
\<close>

theorem renderWebSocketMessages_short_url:
  "(renderWebSocketMessages u exchange = Inl TypeError
      \<longleftrightarrow> length (split 0x2F (requestUrl exchange)) < 3) \<and>
   (length (split 0x2F (requestUrl exchange)) < 3
      \<longleftrightarrow> length (filter (\<lambda>c. c = 0x2F) (requestUrl exchange)) < 2) \<and>
   (isWebSocket exchange \<and> wasAccepted exchange
      \<and> length (split 0x2F (requestUrl exchange)) < 3 \<longrightarrow>
      renderNormalCards u isPaidUser apiNm exchange = Inl TypeError \<and>
      renderExpandedCard u ExpWebSocketMessages exchange = Inl TypeError)"
proof -
  have a: "renderWebSocketMessages u exchange = Inl TypeError
      \<longleftrightarrow> length (split 0x2F (requestUrl exchange)) < 3"
    by (rule renderWebSocketMessages_throws_iff)
  have b: "length (split 0x2F (requestUrl exchange)) < 3
      \<longleftrightarrow> length (filter (\<lambda>c. c = 0x2F) (requestUrl exchange)) < 2"
    by (simp add: length_split)
  have c: "isWebSocket exchange \<and> wasAccepted exchange
      \<and> length (split 0x2F (requestUrl exchange)) < 3 \<longrightarrow>
      renderNormalCards u isPaidUser apiNm exchange = Inl TypeError \<and>
      renderExpandedCard u ExpWebSocketMessages exchange = Inl TypeError"
    using a renderNormalCards_throws [of exchange u isPaidUser apiNm]
      renderExpandedCard_throws [of exchange u]
    by blast
  show ?thesis using a b c by blast
qed

lemma exchangeSocketShortUrl_facts:
  "isWebSocket exchangeSocketShortUrl" "wasAccepted exchangeSocketShortUrl"
  "\<not> requestBreakpoint exchangeSocketShortUrl" "\<not> responseBreakpoint exchangeSocketShortUrl"
  "requestUrl exchangeSocketShortUrl = ascii ''localhost''"
  by (simp_all add: exchangeSocketShortUrl_def exchangeSocket_def exchangeA_def)

text \<open>An accepted WebSocket whose URL is \<open>localhost\<close>: one piece.\<close>

theorem renderWebSocketMessages_short_url_witness:
  "isWebSocket exchangeSocketShortUrl \<and> wasAccepted exchangeSocketShortUrl \<and>
   requestUrl exchangeSocketShortUrl = ascii ''localhost'' \<and>
   length (split 0x2F (requestUrl exchangeSocketShortUrl)) = 1 \<and>
   renderWebSocketMessages storeIdle exchangeSocketShortUrl = Inl TypeError \<and>
   renderNormalCards storeIdle True None exchangeSocketShortUrl = Inl TypeError \<and>
   renderExpandedCard storeIdle ExpWebSocketMessages exchangeSocketShortUrl = Inl TypeError"
proof -
  have pieces: "length (split 0x2F (requestUrl exchangeSocketShortUrl)) = 1"
    by (simp add: shortUrl_pieces)
  show ?thesis
    using renderWebSocketMessages_short_url [of storeIdle exchangeSocketShortUrl True None]
      exchangeSocketShortUrl_facts pieces
    by simp
qed

lemma paneMessagesExpanded_facts:
  "expandedCard (uiStore paneMessagesExpanded) = Some ExpWebSocketMessages"
  by (simp add: paneMessagesExpanded_def paneIdle_def storeIdle_def)

text \<open>
  Claim C4. The expanded key \<open>webSocketMessages\<close> is legal for an accepted WebSocket, and
  the claim promises one card of that key. For the accepted WebSocket whose URL is
  \<open>localhost\<close>, \<open>renderExpandedCard\<close> and with it \<open>render\<close> throw a TypeError instead:
  \<open>urlParts[2]\<close> is read without the length check that the next line of
  \<open>renderWebSocketMessages\<close> makes. The rest of the claim holds, by
  \<open>renderExpandedCard_cannot_show\<close> and \<open>renderExpandedCard_shows\<close>.
\<close>

theorem render_expanded_messages_throws:
  "expandedCard (uiStore paneMessagesExpanded) = Some ExpWebSocketMessages \<and>
   isWebSocket exchangeSocketShortUrl \<and> wasAccepted exchangeSocketShortUrl \<and>
   requestUrl exchangeSocketShortUrl = ascii ''localhost'' \<and>
   renderExpandedCard (uiStore paneMessagesExpanded) ExpWebSocketMessages exchangeSocketShortUrl
     = Inl TypeError \<and>
   render startCaseTable noErrorType paneMessagesExpanded True exchangeSocketShortUrl
     = Inl TypeError"
proof -
  have "renderWebSocketMessages (uiStore paneMessagesExpanded) exchangeSocketShortUrl
      = Inl TypeError"
    by (simp add: renderWebSocketMessages_throws_iff shortUrl_pieces)
  then have card: "renderExpandedCard (uiStore paneMessagesExpanded) ExpWebSocketMessages
      exchangeSocketShortUrl = Inl TypeError"
    using exchangeSocketShortUrl_facts(1,2) by (rule renderExpandedCard_throws [rotated 2])
  then show ?thesis
    using exchangeSocketShortUrl_facts paneMessagesExpanded_facts
    by (simp add: render_def)
qed


end
